theory Spec2Isabelle
  imports Complex_Main "HOL-Library.AList"
begin

section \<open>Data model\<close>

text \<open>
  The program is \<^verbatim>\<open>eogBackend/apis/discrepancyDectector.py\<close>: one evaluator,
  \<^verbatim>\<open>check_discrepancy\<close>, and its HTTP entry point \<^verbatim>\<open>detect_daily_discrepancy\<close>.

  Values decoded from JSON (the upstream response, the request body) are Python objects:
  \<^verbatim>\<open>None\<close>, \<^verbatim>\<open>bool\<close>, numbers, \<^verbatim>\<open>str\<close>, \<^verbatim>\<open>list\<close> and \<^verbatim>\<open>dict\<close>. A \<open>JObj\<close> holds the items
  of the decoded dict in insertion order, with distinct keys. Numbers are modelled as
  reals: the rounding of Python's binary floats, infinities and NaN are not represented.
\<close>

datatype json =
    JNull
  | JBool bool
  | JNum real
  | JStr string
  | JList "json list"
  | JObj "(string \<times> json) list"

text \<open>The classes of the Python exceptions that can leave a function uncaught.\<close>

datatype py_exn = AttributeError | TypeError | ValueError | NotImplementedError | OtherError

text \<open>A calendar date, what \<^verbatim>\<open>.date()\<close> and \<^verbatim>\<open>.dt.date\<close> produce.\<close>

record caldate =
  year :: nat
  month :: nat
  day :: nat

text \<open>
  A pandas DataFrame as the code uses it: the column labels in order, and one record per
  row. A cell whose label the row does not carry is missing (NaN), read as \<open>JNull\<close>.
\<close>

record dataframe =
  columns :: "string list"
  rows :: "(string \<times> json) list list"

definition df_empty :: "dataframe \<Rightarrow> bool" where
  \<comment> \<open>\<^verbatim>\<open>DataFrame.empty\<close>: some axis has length 0.\<close>
  "df_empty df = (rows df = [] \<or> columns df = [])"

definition cell :: "(string \<times> json) list \<Rightarrow> string \<Rightarrow> json" where
  "cell r c = (case map_of r c of None \<Rightarrow> JNull | Some v \<Rightarrow> v)"

definition column :: "dataframe \<Rightarrow> string \<Rightarrow> json list" where
  \<comment> \<open>\<^verbatim>\<open>df[c]\<close> for a label \<open>c\<close> among the columns.\<close>
  "column df c = map (\<lambda>r. cell r c) (rows df)"

text \<open>
  The library calls of the program, taken as parameters: they are not code of this
  repository, and the properties below hold whatever they compute. \<open>Inl\<close> is the
  exception a call raises.
  \<^item> \<open>json_normalize\<close>: \<^verbatim>\<open>pd.json_normalize(all_tickets)\<close>;
  \<^item> \<open>to_datetime_series\<close>: \<^verbatim>\<open>pd.to_datetime(series).dt.date\<close>, \<open>None\<close> for NaT;
  \<^item> \<open>to_datetime\<close>: \<^verbatim>\<open>pd.to_datetime(date).date()\<close>, \<open>None\<close> for NaT;
  \<^item> \<open>series_eq\<close>: \<^verbatim>\<open>series == value\<close>, the boolean mask;
  \<^item> \<open>series_sum\<close>: \<^verbatim>\<open>series.sum()\<close> as the number the arithmetic after it uses; a total
    that is no number (strings concatenate) makes the subtraction of line 84 raise, which
    is \<open>Inl\<close> here;
  \<^item> \<open>float_of_str\<close>: the builtin \<^verbatim>\<open>float\<close> on a \<^verbatim>\<open>str\<close>, \<open>None\<close> for ValueError.
\<close>

record library =
  json_normalize :: "json \<Rightarrow> py_exn + dataframe"
  to_datetime_series :: "json list \<Rightarrow> py_exn + caldate option list"
  to_datetime :: "json \<Rightarrow> py_exn + caldate option"
  series_eq :: "json list \<Rightarrow> json \<Rightarrow> py_exn + bool list"
  series_sum :: "json list \<Rightarrow> py_exn + real"
  float_of_str :: "string \<Rightarrow> real option"

subsection \<open>Results of the evaluator\<close>

datatype status = OK | OVER_REPORTED | UNDER_REPORTED | MISSING_TICKET

text \<open>
  The dict \<^verbatim>\<open>check_discrepancy\<close> returns on success, one field per key. The key
  \<^verbatim>\<open>num_tickets\<close> is absent from the dict of the missing-ticket branch: \<open>None\<close>. The
  field \<open>date\<close> is the normalised date whose \<^verbatim>\<open>str\<close> the dict carries.
\<close>

record reconciliation =
  cauldron_id :: json
  date :: "caldate option"
  drain_volume :: real
  total_ticket_volume :: real
  status :: status
  difference :: real
  relative_diff :: real
  num_tickets :: "nat option"

text \<open>
  The error dicts \<^verbatim>\<open>{"error": ...}\<close> of \<^verbatim>\<open>check_discrepancy\<close>, one constructor per
  message, carrying what the message interpolates.
\<close>

datatype eval_error =
    FetchFailed string
  | UnexpectedResponseFormat
  | ParseFailed py_exn
  | EmptyDataset
  | MissingColumns "string list"

datatype payload = Error eval_error | Result reconciliation

section \<open>The evaluator\<close>

text \<open>
  Lines 29-43: the ticket list inside the decoded response. \<open>None\<close> is the branch that
  returns "Unexpected API response format.".
\<close>

definition is_list :: "json \<Rightarrow> bool" where
  "is_list v = (case v of JList _ \<Rightarrow> True | _ \<Rightarrow> False)"

definition is_dict :: "json \<Rightarrow> bool" where
  "is_dict v = (case v of JObj _ \<Rightarrow> True | _ \<Rightarrow> False)"

definition first_list_value :: "(string \<times> json) list \<Rightarrow> json" where
  \<comment> \<open>\<^verbatim>\<open>next((v for v in data.values() if isinstance(v, list)), [])\<close>\<close>
  "first_list_value kvs =
     (case filter is_list (map snd kvs) of [] \<Rightarrow> JList [] | v # _ \<Rightarrow> v)"

definition all_tickets_of :: "json \<Rightarrow> json option" where
  "all_tickets_of data =
     (case data of
        JObj kvs \<Rightarrow>
          (case map_of kvs ''tickets'' of
             Some v \<Rightarrow> Some v
           | None \<Rightarrow>
               (case map_of kvs ''data'' of
                  Some v \<Rightarrow> Some v
                | None \<Rightarrow> Some (first_list_value kvs)))
      | JList xs \<Rightarrow> Some (JList xs)
      | _ \<Rightarrow> None)"

definition expected_cols :: "string list" where
  "expected_cols = [''cauldron_id'', ''date'', ''amount_collected'']"

text \<open>
  Lines 22-62: fetch, decode and validate. The argument \<open>upstream\<close> is the outcome of
  \<^verbatim>\<open>requests.get\<close>, \<^verbatim>\<open>raise_for_status\<close> and \<^verbatim>\<open>response.json()\<close>: the decoded body, or
  the message of the exception one of them raised.
\<close>

definition load_tickets :: "library \<Rightarrow> string + json \<Rightarrow> eval_error + dataframe" where
  "load_tickets lib upstream =
     (case upstream of
        Inl msg \<Rightarrow> Inl (FetchFailed msg)
      | Inr data \<Rightarrow>
          (case all_tickets_of data of
             None \<Rightarrow> Inl UnexpectedResponseFormat
           | Some all_tickets \<Rightarrow>
               (case json_normalize lib all_tickets of
                  Inl e \<Rightarrow> Inl (ParseFailed e)
                | Inr tickets_df \<Rightarrow>
                    if df_empty tickets_df then Inl EmptyDataset
                    else if \<not> set expected_cols \<subseteq> set (columns tickets_df)
                    then Inl (MissingColumns (columns tickets_df))
                    else Inr tickets_df)))"

text \<open>
  Lines 65-69: the rows whose \<^verbatim>\<open>cauldron_id\<close> equals the request's and whose normalised
  date equals the request's normalised date, with that date. NaT equals nothing.
\<close>

definition date_eq :: "caldate option \<Rightarrow> caldate option \<Rightarrow> bool" where
  "date_eq a b = (case a of None \<Rightarrow> False | Some x \<Rightarrow> b = Some x)"

definition select_rows :: "'a list \<Rightarrow> bool list \<Rightarrow> 'a list" where
  \<comment> \<open>boolean-mask indexing \<^verbatim>\<open>df[mask]\<close>\<close>
  "select_rows rs msk = map fst (filter snd (zip rs msk))"

definition cauldron_tickets_of ::
  "library \<Rightarrow> dataframe \<Rightarrow> json \<Rightarrow> json \<Rightarrow> py_exn + caldate option \<times> (string \<times> json) list list"
where
  "cauldron_tickets_of lib tickets_df cid date_in =
     (case to_datetime_series lib (column tickets_df ''date'') of
        Inl e \<Rightarrow> Inl e
      | Inr dates \<Rightarrow>
          (case to_datetime lib date_in of
             Inl e \<Rightarrow> Inl e
           | Inr date_obj \<Rightarrow>
               (case series_eq lib (column tickets_df ''cauldron_id'') cid of
                  Inl e \<Rightarrow> Inl e
                | Inr id_mask \<Rightarrow>
                    Inr (date_obj,
                         select_rows (rows tickets_df)
                           (map2 (\<and>) id_mask (map (\<lambda>d. date_eq d date_obj) dates))))))"

text \<open>Lines 87-92.\<close>

definition classify :: "real \<Rightarrow> real \<Rightarrow> real \<Rightarrow> real \<Rightarrow> real \<Rightarrow> real \<Rightarrow> status" where
  "classify rel_diff diff total_volume drain tolerance threshold =
     (if rel_diff \<le> tolerance \<or> diff \<le> threshold then OK
      else if total_volume > drain then OVER_REPORTED
      else UNDER_REPORTED)"

text \<open>
  \<^verbatim>\<open>check_discrepancy(cauldron_id, date, drain_volume, tolerance, threshold)\<close>. \<open>Inl\<close> is an
  exception the function does not catch; \<open>Inr\<close> is the dict it returns.
\<close>

definition check_discrepancy ::
  "library \<Rightarrow> string + json \<Rightarrow> json \<Rightarrow> json \<Rightarrow> real \<Rightarrow> real \<Rightarrow> real \<Rightarrow> py_exn + payload"
where
  "check_discrepancy lib upstream cid date_in drain tolerance threshold =
     (case load_tickets lib upstream of
        Inl err \<Rightarrow> Inr (Error err)
      | Inr tickets_df \<Rightarrow>
          (case cauldron_tickets_of lib tickets_df cid date_in of
             Inl e \<Rightarrow> Inl e
           | Inr (date_obj, cauldron_tickets) \<Rightarrow>
               if cauldron_tickets = [] then
                 Inr (Result \<lparr>cauldron_id = cid, date = date_obj, drain_volume = drain,
                       total_ticket_volume = 0, status = MISSING_TICKET,
                       difference = drain, relative_diff = 1, num_tickets = None\<rparr>)
               else
                 (case series_sum lib (map (\<lambda>r. cell r ''amount_collected'') cauldron_tickets) of
                    Inl e \<Rightarrow> Inl e
                  | Inr total_volume \<Rightarrow>
                      (let diff = \<bar>total_volume - drain\<bar>;
                           rel_diff = diff / max drain (1 / 1000000)
                       in Inr (Result \<lparr>cauldron_id = cid, date = date_obj, drain_volume = drain,
                                 total_ticket_volume = total_volume,
                                 status = classify rel_diff diff total_volume drain tolerance threshold,
                                 difference = diff, relative_diff = rel_diff,
                                 num_tickets = Some (length cauldron_tickets)\<rparr>)))))"

section \<open>The HTTP entry point\<close>

datatype http_body = ErrorBody string | ResultBody payload

datatype http_response = Response (status_code: nat) (body: http_body)

definition truthy :: "json \<Rightarrow> bool" where
  \<comment> \<open>Python's truth value of a decoded JSON value\<close>
  "truthy v =
     (case v of
        JNull \<Rightarrow> False
      | JBool b \<Rightarrow> b
      | JNum x \<Rightarrow> x \<noteq> 0
      | JStr s \<Rightarrow> s \<noteq> []
      | JList xs \<Rightarrow> xs \<noteq> []
      | JObj kvs \<Rightarrow> kvs \<noteq> [])"

definition dict_get :: "(string \<times> json) list \<Rightarrow> string \<Rightarrow> json \<Rightarrow> json" where
  \<comment> \<open>\<^verbatim>\<open>d.get(k, default)\<close>\<close>
  "dict_get d k dflt = (case map_of d k of None \<Rightarrow> dflt | Some v \<Rightarrow> v)"

definition py_float :: "library \<Rightarrow> json \<Rightarrow> py_exn + real" where
  \<comment> \<open>the builtin \<^verbatim>\<open>float(v)\<close>\<close>
  "py_float lib v =
     (case v of
        JNum x \<Rightarrow> Inr x
      | JBool b \<Rightarrow> Inr (if b then 1 else 0)
      | JStr s \<Rightarrow> (case float_of_str lib s of None \<Rightarrow> Inl ValueError | Some x \<Rightarrow> Inr x)
      | _ \<Rightarrow> Inl TypeError)"

text \<open>
  Lines 125-138: the checks on the request body. The argument is what
  \<^verbatim>\<open>request.get_json(silent=True)\<close> returns: \<open>None\<close> when the body is missing or is not
  JSON. The result is an uncaught exception (\<open>.get\<close> on a value that is no dict), the
  message of a 400 response, or the body with its three required fields.
\<close>

definition validate_request ::
  "json option \<Rightarrow> py_exn + (string + (string \<times> json) list \<times> json \<times> json \<times> json)"
where
  "validate_request req =
     (case req of
        None \<Rightarrow> Inr (Inl ''Invalid or missing JSON body'')
      | Some JNull \<Rightarrow> Inr (Inl ''Invalid or missing JSON body'')
      | Some (JObj data) \<Rightarrow>
          (let cauldron_data = dict_get data ''cauldron_data'' (JObj []) in
           if \<not> truthy cauldron_data then Inr (Inl ''Missing 'cauldron_data' field'')
           else
             (case cauldron_data of
                JObj cd \<Rightarrow>
                  (let cid = dict_get cd ''cauldron_id'' JNull;
                       date_in = dict_get cd ''date_time'' JNull;
                       dv = dict_get cd ''drain_volume'' JNull
                   in if \<not> (truthy cid \<and> truthy date_in \<and> dv \<noteq> JNull)
                      then Inr (Inl ''Missing required cauldron fields'')
                      else Inr (Inr (data, cid, date_in, dv)))
              | _ \<Rightarrow> Inl AttributeError))
      | Some _ \<Rightarrow> Inl AttributeError)"

text \<open>
  \<^verbatim>\<open>detect_daily_discrepancy()\<close>. \<open>Inl\<close> is an exception that leaves the view function
  uncaught; \<open>Inr\<close> is the pair of body and status code it returns.
\<close>

definition detect_daily_discrepancy ::
  "library \<Rightarrow> string + json \<Rightarrow> json option \<Rightarrow> py_exn + http_response"
where
  "detect_daily_discrepancy lib upstream req =
     (case validate_request req of
        Inl e \<Rightarrow> Inl e
      | Inr (Inl msg) \<Rightarrow> Inr (Response 400 (ErrorBody msg))
      | Inr (Inr (data, cid, date_in, dv)) \<Rightarrow>
          (case py_float lib (dict_get data ''tolerance'' (JNum (5 / 100))) of
             Inl e \<Rightarrow> Inl e
           | Inr tolerance \<Rightarrow>
               (case py_float lib (dict_get data ''threshold'' (JNum 5)) of
                  Inl e \<Rightarrow> Inl e
                | Inr threshold \<Rightarrow>
                    (case py_float lib dv of
                       Inl e \<Rightarrow> Inl e
                     | Inr drain \<Rightarrow>
                         (case check_discrepancy lib upstream cid date_in drain tolerance threshold of
                            Inl e \<Rightarrow> Inl e
                          | Inr result \<Rightarrow> Inr (Response 200 (ResultBody result)))))))"

section \<open>A reference library\<close>

text \<open>
  One instance of the library parameters, for evaluating the program on concrete inputs.
  It follows pandas on the inputs evaluated in this development: lists of JSON objects,
  ISO calendar dates \<^verbatim>\<open>YYYY-MM-DD\<close>, string and number identifiers, numeric amounts. Where it is
  narrower than pandas (other date formats, other float literals) it rejects the input.
\<close>

primrec normalise_json :: "json \<Rightarrow> string \<Rightarrow> (string \<times> json) list" where
  \<comment> \<open>nested objects flattened, their keys joined with a dot\<close>
  "normalise_json JNull ks = [(ks, JNull)]"
| "normalise_json (JBool b) ks = [(ks, JBool b)]"
| "normalise_json (JNum x) ks = [(ks, JNum x)]"
| "normalise_json (JStr s) ks = [(ks, JStr s)]"
| "normalise_json (JList xs) ks = [(ks, JList xs)]"
| "normalise_json (JObj kvs) ks =
     concat (map (\<lambda>(k, f). f (if ks = [] then k else ks @ ''.'' @ k))
               (map (map_prod id normalise_json) kvs))"

definition dict_of_items :: "(string \<times> json) list \<Rightarrow> (string \<times> json) list" where
  \<comment> \<open>a dict built by assigning the items in order: a later value replaces an earlier one in place\<close>
  "dict_of_items kvs = foldl (\<lambda>d (k, v). AList.update k v d) [] kvs"

definition normalise_json_ordered :: "(string \<times> json) list \<Rightarrow> (string \<times> json) list" where
  \<comment> \<open>the members that are no objects first, then the flattened nested ones\<close>
  "normalise_json_ordered kvs =
     dict_of_items
       (filter (\<lambda>(k, v). \<not> is_dict v) kvs
        @ normalise_json (JObj (filter (\<lambda>(k, v). is_dict v) kvs)) [])"

definition simple_json_normalize :: "json \<Rightarrow> (string \<times> json) list" where
  "simple_json_normalize v = (case v of JObj kvs \<Rightarrow> normalise_json_ordered kvs | _ \<Rightarrow> [])"

definition frame_of_records :: "(string \<times> json) list list \<Rightarrow> dataframe" where
  \<comment> \<open>\<^verbatim>\<open>DataFrame(records)\<close>: the labels in order of first appearance\<close>
  "frame_of_records rs =
     \<lparr>columns = rev (remdups (rev (concat (map (map fst) rs)))), rows = rs\<rparr>"

definition ref_json_normalize :: "json \<Rightarrow> py_exn + dataframe" where
  "ref_json_normalize v =
     (case v of
        JList xs \<Rightarrow> Inr (frame_of_records (map simple_json_normalize xs))
      | JObj kvs \<Rightarrow> Inr (frame_of_records [normalise_json_ordered kvs])
      | _ \<Rightarrow> Inl NotImplementedError)"

definition digit_val :: "char \<Rightarrow> nat option" where
  "digit_val c =
     (let n = (of_char c :: nat) in if 48 \<le> n \<and> n \<le> 57 then Some (n - 48) else None)"

fun digits_val :: "nat \<Rightarrow> string \<Rightarrow> nat option" where
  "digits_val acc [] = Some acc"
| "digits_val acc (c # cs) =
     (case digit_val c of None \<Rightarrow> None | Some d \<Rightarrow> digits_val (10 * acc + d) cs)"

definition number_of :: "string \<Rightarrow> nat option" where
  "number_of s = (if s = [] then None else digits_val 0 s)"

definition days_in_month :: "nat \<Rightarrow> nat \<Rightarrow> nat" where
  "days_in_month y m =
     (if m = 2 then (if y mod 4 = 0 \<and> (y mod 400 = 0 \<or> y mod 100 \<noteq> 0) then 29 else 28)
      else if m = 4 \<or> m = 6 \<or> m = 9 \<or> m = 11 then 30
      else 31)"

definition iso_date :: "string \<Rightarrow> caldate option" where
  "iso_date s =
     (if length s = 10 \<and> s ! 4 = CHR ''-'' \<and> s ! 7 = CHR ''-'' then
        (case (number_of (take 4 s), number_of (take 2 (drop 5 s)), number_of (drop 8 s)) of
           (Some y, Some m, Some d) \<Rightarrow>
             if 1 \<le> y \<and> 1 \<le> m \<and> m \<le> 12 \<and> 1 \<le> d \<and> d \<le> days_in_month y m
             then Some \<lparr>year = y, month = m, day = d\<rparr> else None
         | _ \<Rightarrow> None)
      else None)"

definition ref_to_datetime :: "json \<Rightarrow> py_exn + caldate option" where
  "ref_to_datetime v =
     (case v of
        JStr s \<Rightarrow> (case iso_date s of None \<Rightarrow> Inl ValueError | Some d \<Rightarrow> Inr (Some d))
      | JNull \<Rightarrow> Inl AttributeError
      | _ \<Rightarrow> Inl TypeError)"

definition ref_to_datetime_cell :: "json \<Rightarrow> py_exn + caldate option" where
  "ref_to_datetime_cell v = (case v of JNull \<Rightarrow> Inr None | _ \<Rightarrow> ref_to_datetime v)"

fun sequence :: "('e + 'a) list \<Rightarrow> 'e + 'a list" where
  "sequence [] = Inr []"
| "sequence (x # xs) =
     (case x of
        Inl e \<Rightarrow> Inl e
      | Inr v \<Rightarrow> (case sequence xs of Inl e \<Rightarrow> Inl e | Inr vs \<Rightarrow> Inr (v # vs)))"

definition ref_to_datetime_series :: "json list \<Rightarrow> py_exn + caldate option list" where
  "ref_to_datetime_series xs = sequence (map ref_to_datetime_cell xs)"

definition py_eq :: "json \<Rightarrow> json \<Rightarrow> bool" where
  \<comment> \<open>Python's \<^verbatim>\<open>==\<close> on scalars: a \<^verbatim>\<open>bool\<close> is the number 1 or 0; a missing cell equals nothing\<close>
  "py_eq a b =
     (case (a, b) of
        (JNull, _) \<Rightarrow> False
      | (_, JNull) \<Rightarrow> False
      | (JBool p, JNum y) \<Rightarrow> (if p then 1 else 0) = y
      | (JNum x, JBool q) \<Rightarrow> x = (if q then 1 else 0)
      | _ \<Rightarrow> a = b)"

definition ref_series_eq :: "json list \<Rightarrow> json \<Rightarrow> py_exn + bool list" where
  "ref_series_eq col v =
     (case v of
        JList ys \<Rightarrow>
          if length ys \<noteq> length col then Inl ValueError else Inr (map2 py_eq col ys)
      | _ \<Rightarrow> Inr (map (\<lambda>c. py_eq c v) col))"

fun ref_series_sum :: "json list \<Rightarrow> py_exn + real" where
  "ref_series_sum [] = Inr 0"
| "ref_series_sum (v # vs) =
     (case ref_series_sum vs of
        Inl e \<Rightarrow> Inl e
      | Inr t \<Rightarrow>
          (case v of
             JNum x \<Rightarrow> Inr (x + t)
           | JBool b \<Rightarrow> Inr ((if b then 1 else 0) + t)
           | JNull \<Rightarrow> Inr t
           | _ \<Rightarrow> Inl TypeError))"

definition ref_float_of_str :: "string \<Rightarrow> real option" where
  \<comment> \<open>unsigned decimal integers only\<close>
  "ref_float_of_str s = map_option real (number_of s)"

definition pandas_ref :: library where
  "pandas_ref =
     \<lparr>json_normalize = ref_json_normalize,
      to_datetime_series = ref_to_datetime_series,
      to_datetime = ref_to_datetime,
      series_eq = ref_series_eq,
      series_sum = ref_series_sum,
      float_of_str = ref_float_of_str\<rparr>"

section \<open>Example inputs\<close>

definition ticket :: "string \<Rightarrow> string \<Rightarrow> real \<Rightarrow> json" where
  "ticket c d a =
     JObj [(''cauldron_id'', JStr c), (''date'', JStr d), (''amount_collected'', JNum a)]"

definition example_tickets :: json where
  "example_tickets = JList [ticket ''c1'' ''2025-11-01'' 60, ticket ''c1'' ''2025-11-01'' 42]"

definition example_frame :: dataframe where
  "example_frame =
     \<lparr>columns = [''cauldron_id'', ''date'', ''amount_collected''],
      rows = [[(''cauldron_id'', JStr ''c1''), (''date'', JStr ''2025-11-01''),
               (''amount_collected'', JNum 60)],
              [(''cauldron_id'', JStr ''c1''), (''date'', JStr ''2025-11-01''),
               (''amount_collected'', JNum 42)]]\<rparr>"

definition nov1 :: caldate where
  "nov1 = \<lparr>year = 2025, month = 11, day = 1\<rparr>"

definition example_request :: "(string \<times> json) list \<Rightarrow> json" where
  \<comment> \<open>the request body of the docstring, with further top-level members in front\<close>
  "example_request extra =
     JObj (extra @ [(''cauldron_data'',
        JObj [(''cauldron_id'', JStr ''c1''), (''date_time'', JStr ''2025-11-01''),
              (''drain_volume'', JNum 100)])])"

section \<open>Properties of the evaluator\<close>

text \<open>
  A returned result dict is one of two: the dict of the missing-ticket branch, or the
  dict of the comparison, built from the total of at least one matching ticket.
\<close>

lemma check_discrepancy_Result [consumes 1, case_names missing found]:
  assumes res: "check_discrepancy lib upstream cid date_in drain tolerance threshold = Inr (Result r)"
  obtains (missing) date_obj where
      "r = \<lparr>cauldron_id = cid, date = date_obj, drain_volume = drain,
             total_ticket_volume = 0, status = MISSING_TICKET,
             difference = drain, relative_diff = 1, num_tickets = None\<rparr>"
  | (found) date_obj tv n where "0 < n"
      "r = \<lparr>cauldron_id = cid, date = date_obj, drain_volume = drain,
             total_ticket_volume = tv,
             status = classify (\<bar>tv - drain\<bar> / max drain (1 / 1000000)) \<bar>tv - drain\<bar>
                        tv drain tolerance threshold,
             difference = \<bar>tv - drain\<bar>,
             relative_diff = \<bar>tv - drain\<bar> / max drain (1 / 1000000),
             num_tickets = Some n\<rparr>"
proof (cases "load_tickets lib upstream")
  case (Inl err)
  with res show thesis by (simp add: check_discrepancy_def)
next
  case (Inr tickets_df)
  note df = this
  show thesis
  proof (cases "cauldron_tickets_of lib tickets_df cid date_in")
    case (Inl e)
    with res df show thesis by (simp add: check_discrepancy_def)
  next
    case (Inr p)
    note ct = this
    obtain date_obj cts where p: "p = (date_obj, cts)" by (cases p)
    show thesis
    proof (cases "cts = []")
      case True
      with res df ct p
      have "r = \<lparr>cauldron_id = cid, date = date_obj, drain_volume = drain,
             total_ticket_volume = 0, status = MISSING_TICKET,
             difference = drain, relative_diff = 1, num_tickets = None\<rparr>"
        by (simp add: check_discrepancy_def)
      then show thesis by (rule missing)
    next
      case False
      then have n: "0 < length cts" by simp
      show thesis
      proof (cases "series_sum lib (map (\<lambda>r. cell r ''amount_collected'') cts)")
        case (Inl e)
        with res df ct p False show thesis by (simp add: check_discrepancy_def)
      next
        case (Inr tv)
        with res df ct p False
        have "r = \<lparr>cauldron_id = cid, date = date_obj, drain_volume = drain,
                   total_ticket_volume = tv,
                   status = classify (\<bar>tv - drain\<bar> / max drain (1 / 1000000)) \<bar>tv - drain\<bar>
                              tv drain tolerance threshold,
                   difference = \<bar>tv - drain\<bar>,
                   relative_diff = \<bar>tv - drain\<bar> / max drain (1 / 1000000),
                   num_tickets = Some (length cts)\<rparr>"
          by (simp add: check_discrepancy_def Let_def)
        with n show thesis by (rule found)
      qed
    qed
  qed
qed

text \<open>
  C1. When the evaluation found at least one matching ticket (the result carries
  \<open>num_tickets\<close>), the status is OK exactly when the relative difference is within the
  tolerance or the difference is within the threshold; otherwise it is OVER_REPORTED
  when the ticket total exceeds the drain volume, and UNDER_REPORTED in every other case.
\<close>

theorem C1_status_classification:
  assumes "check_discrepancy lib upstream cid date_in drain tolerance threshold = Inr (Result r)"
    and "num_tickets r = Some n"
  shows "status r =
           (if relative_diff r \<le> tolerance \<or> difference r \<le> threshold then OK
            else if total_ticket_volume r > drain_volume r then OVER_REPORTED
            else UNDER_REPORTED)
         \<and> drain_volume r = drain \<and> 0 < n"
  using assms(1)
proof (cases rule: check_discrepancy_Result)
  case (missing date_obj)
  with assms(2) show ?thesis by simp
next
  case (found date_obj tv m)
  with assms(2) show ?thesis by (simp add: classify_def)
qed

theorem C1_status_classification_witness:
  "check_discrepancy pandas_ref (Inr example_tickets) (JStr ''c1'') (JStr ''2025-11-01'')
       50 (5 / 100) 5 =
     Inr (Result \<lparr>cauldron_id = JStr ''c1'', date = Some nov1, drain_volume = 50,
            total_ticket_volume = 102, status = OVER_REPORTED,
            difference = 52, relative_diff = 52 / 50, num_tickets = Some 2\<rparr>)
   \<and> \<not> ((52 / 50 :: real) \<le> 5 / 100 \<or> (52 :: real) \<le> 5) \<and> (102 :: real) > 50"
proof -
  have e: "check_discrepancy pandas_ref (Inr example_tickets) (JStr ''c1'') (JStr ''2025-11-01'')
       50 (5 / 100) 5 =
     Inr (Result \<lparr>cauldron_id = JStr ''c1'', date = Some nov1, drain_volume = 50,
            total_ticket_volume = 102, status = OVER_REPORTED,
            difference = 52, relative_diff = 52 / 50, num_tickets = Some 2\<rparr>)"
    by code_simp
  from C1_status_classification [OF e, of 2] e show ?thesis by simp
qed

text \<open>
  The selection by a boolean mask is empty exactly when the mask is false at every row.
\<close>

lemma select_rows_Nil_iff:
  "select_rows rs msk = [] \<longleftrightarrow> (\<forall>i. i < length rs \<and> i < length msk \<longrightarrow> \<not> msk ! i)"
  unfolding select_rows_def
  by (auto simp: filter_empty_conv set_zip)

text \<open>
  The selection of lines 67-69 is empty when no row has both the requested cauldron and
  the requested date.
\<close>

lemma cauldron_tickets_of_no_match:
  assumes "to_datetime_series lib (column tickets_df ''date'') = Inr dates"
    and "to_datetime lib date_in = Inr date_obj"
    and "series_eq lib (column tickets_df ''cauldron_id'') cid = Inr id_mask"
    and "\<And>i. i < length id_mask \<Longrightarrow> i < length dates \<Longrightarrow>
            \<not> (id_mask ! i \<and> date_eq (dates ! i) date_obj)"
  shows "cauldron_tickets_of lib tickets_df cid date_in = Inr (date_obj, [])"
proof -
  let ?m = "map2 (\<and>) id_mask (map (\<lambda>d. date_eq d date_obj) dates)"
  have "\<not> ?m ! i" if "i < length ?m" for i
    using that assms(4) [of i] by simp
  then have "select_rows (rows tickets_df) ?m = []"
    by (simp add: select_rows_Nil_iff)
  with assms(1-3) show ?thesis by (simp add: cauldron_tickets_of_def)
qed

text \<open>
  C2. When the tickets load and validate, and no row matches the request's cauldron and
  normalised date (the selection \<open>cauldron_tickets\<close> is empty), the evaluator returns the
  missing-ticket dict: status MISSING_TICKET, total 0, difference equal to the drain
  volume as given, relative difference 1, and no \<open>num_tickets\<close> key. Neither the tolerance
  nor the threshold is consulted.
\<close>

theorem C2_missing_ticket:
  assumes "load_tickets lib upstream = Inr tickets_df"
    and "cauldron_tickets_of lib tickets_df cid date_in = Inr (date_obj, [])"
  shows "check_discrepancy lib upstream cid date_in drain tolerance threshold =
           Inr (Result \<lparr>cauldron_id = cid, date = date_obj, drain_volume = drain,
                  total_ticket_volume = 0, status = MISSING_TICKET,
                  difference = drain, relative_diff = 1, num_tickets = None\<rparr>)"
  using assms by (simp add: check_discrepancy_def)

theorem C2_missing_ticket_witness:
  "load_tickets pandas_ref (Inr example_tickets) = Inr example_frame
   \<and> cauldron_tickets_of pandas_ref example_frame (JStr ''c2'') (JStr ''2025-11-01'')
       = Inr (Some nov1, [])
   \<and> check_discrepancy pandas_ref (Inr example_tickets) (JStr ''c2'') (JStr ''2025-11-01'')
         100 (5 / 100) 5 =
       Inr (Result \<lparr>cauldron_id = JStr ''c2'', date = Some nov1, drain_volume = 100,
              total_ticket_volume = 0, status = MISSING_TICKET,
              difference = 100, relative_diff = 1, num_tickets = None\<rparr>)"
proof -
  have l: "load_tickets pandas_ref (Inr example_tickets) = Inr example_frame"
    by code_simp
  have f: "cauldron_tickets_of pandas_ref example_frame (JStr ''c2'') (JStr ''2025-11-01'')
       = Inr (Some nov1, [])"
    by code_simp
  from l f C2_missing_ticket [OF l f, of 100 "5 / 100" 5] show ?thesis by simp
qed

text \<open>
  C3 (as amended). In every result dict the drain volume is the one given. When at least
  one ticket matched, \<open>difference\<close> is the absolute value of total minus drain volume. In
  the missing-ticket branch the total is 0 and \<open>difference\<close> is the drain volume itself,
  which is that absolute value whenever the drain volume is not negative.
\<close>

theorem C3_difference:
  assumes "check_discrepancy lib upstream cid date_in drain tolerance threshold = Inr (Result r)"
  shows "drain_volume r = drain
         \<and> (num_tickets r \<noteq> None \<longrightarrow> difference r = \<bar>total_ticket_volume r - drain_volume r\<bar>)
         \<and> (num_tickets r = None \<longrightarrow> total_ticket_volume r = 0 \<and> difference r = drain_volume r)
         \<and> (0 \<le> drain \<longrightarrow> difference r = \<bar>total_ticket_volume r - drain_volume r\<bar>)"
  using assms
proof (cases rule: check_discrepancy_Result)
  case (missing date_obj)
  then show ?thesis by simp
next
  case (found date_obj tv n)
  then show ?thesis by simp
qed

theorem C3_difference_witness:
  "check_discrepancy pandas_ref (Inr example_tickets) (JStr ''c1'') (JStr ''2025-11-01'')
       100 (5 / 100) 5 =
     Inr (Result \<lparr>cauldron_id = JStr ''c1'', date = Some nov1, drain_volume = 100,
            total_ticket_volume = 102, status = OK,
            difference = 2, relative_diff = 2 / 100, num_tickets = Some 2\<rparr>)
   \<and> (2 :: real) = \<bar>102 - 100\<bar>"
proof -
  have e: "check_discrepancy pandas_ref (Inr example_tickets) (JStr ''c1'') (JStr ''2025-11-01'')
       100 (5 / 100) 5 =
     Inr (Result \<lparr>cauldron_id = JStr ''c1'', date = Some nov1, drain_volume = 100,
            total_ticket_volume = 102, status = OK,
            difference = 2, relative_diff = 2 / 100, num_tickets = Some 2\<rparr>)"
    by code_simp
  from C3_difference [OF e] e show ?thesis by simp
qed

theorem C3_counterexample:
  "check_discrepancy pandas_ref (Inr example_tickets) (JStr ''c2'') (JStr ''2025-11-01'')
       (- 5) (5 / 100) 5 =
     Inr (Result \<lparr>cauldron_id = JStr ''c2'', date = Some nov1, drain_volume = - 5,
            total_ticket_volume = 0, status = MISSING_TICKET,
            difference = - 5, relative_diff = 1, num_tickets = None\<rparr>)
   \<and> (- 5 :: real) \<noteq> \<bar>0 - (- 5)\<bar>"
proof -
  have "check_discrepancy pandas_ref (Inr example_tickets) (JStr ''c2'') (JStr ''2025-11-01'')
       (- 5) (5 / 100) 5 =
     Inr (Result \<lparr>cauldron_id = JStr ''c2'', date = Some nov1, drain_volume = - 5,
            total_ticket_volume = 0, status = MISSING_TICKET,
            difference = - 5, relative_diff = 1, num_tickets = None\<rparr>)"
    by code_simp
  then show ?thesis by simp
qed

text \<open>
  C4 (as amended). When at least one ticket matched, \<open>relative_diff\<close> is the difference
  divided by the larger of the drain volume and 1e-6. In the missing-ticket branch
  \<open>relative_diff\<close> is the constant 1, which is that quotient whenever the drain volume is
  at least 1e-6.
\<close>

theorem C4_relative_diff:
  assumes "check_discrepancy lib upstream cid date_in drain tolerance threshold = Inr (Result r)"
  shows "(num_tickets r \<noteq> None \<longrightarrow>
            relative_diff r = difference r / max (drain_volume r) (1 / 1000000))
         \<and> (num_tickets r = None \<longrightarrow> relative_diff r = 1)
         \<and> (1 / 1000000 \<le> drain \<longrightarrow>
            relative_diff r = difference r / max (drain_volume r) (1 / 1000000))"
  using assms
proof (cases rule: check_discrepancy_Result)
  case (missing date_obj)
  have "drain / max drain (1 / 1000000) = 1" if "1 / 1000000 \<le> drain"
  proof -
    from that have "max drain (1 / 1000000) = drain" by simp
    moreover from that have "drain \<noteq> 0" by auto
    ultimately show ?thesis by simp
  qed
  with missing show ?thesis by simp
next
  case (found date_obj tv n)
  then show ?thesis by simp
qed

theorem C4_relative_diff_witness:
  "check_discrepancy pandas_ref (Inr example_tickets) (JStr ''c1'') (JStr ''2025-11-01'')
       200 (5 / 100) 5 =
     Inr (Result \<lparr>cauldron_id = JStr ''c1'', date = Some nov1, drain_volume = 200,
            total_ticket_volume = 102, status = UNDER_REPORTED,
            difference = 98, relative_diff = 98 / 200, num_tickets = Some 2\<rparr>)
   \<and> (98 / 200 :: real) = 98 / max 200 (1 / 1000000)"
proof -
  have e: "check_discrepancy pandas_ref (Inr example_tickets) (JStr ''c1'') (JStr ''2025-11-01'')
       200 (5 / 100) 5 =
     Inr (Result \<lparr>cauldron_id = JStr ''c1'', date = Some nov1, drain_volume = 200,
            total_ticket_volume = 102, status = UNDER_REPORTED,
            difference = 98, relative_diff = 98 / 200, num_tickets = Some 2\<rparr>)"
    by code_simp
  from C4_relative_diff [OF e] e show ?thesis by simp
qed

theorem C4_counterexample:
  "check_discrepancy pandas_ref (Inr example_tickets) (JStr ''c2'') (JStr ''2025-11-01'')
       0 (5 / 100) 5 =
     Inr (Result \<lparr>cauldron_id = JStr ''c2'', date = Some nov1, drain_volume = 0,
            total_ticket_volume = 0, status = MISSING_TICKET,
            difference = 0, relative_diff = 1, num_tickets = None\<rparr>)
   \<and> (1 :: real) \<noteq> 0 / max 0 (1 / 1000000)"
proof -
  have "check_discrepancy pandas_ref (Inr example_tickets) (JStr ''c2'') (JStr ''2025-11-01'')
       0 (5 / 100) 5 =
     Inr (Result \<lparr>cauldron_id = JStr ''c2'', date = Some nov1, drain_volume = 0,
            total_ticket_volume = 0, status = MISSING_TICKET,
            difference = 0, relative_diff = 1, num_tickets = None\<rparr>)"
    by code_simp
  then show ?thesis by simp
qed

text \<open>
  C5. For one ticket list and one request, an upstream body that wraps the list under
  \<open>tickets\<close>, one that wraps it under \<open>data\<close>, and the bare list give the same evaluation,
  whatever it is (a result, an error dict or an exception).
\<close>

theorem C5_shapes_agree:
  "check_discrepancy lib (Inr (JObj [(''tickets'', JList ts)])) cid date_in drain tolerance threshold
     = check_discrepancy lib (Inr (JList ts)) cid date_in drain tolerance threshold
   \<and> check_discrepancy lib (Inr (JObj [(''data'', JList ts)])) cid date_in drain tolerance threshold
     = check_discrepancy lib (Inr (JList ts)) cid date_in drain tolerance threshold"
  by (simp add: check_discrepancy_def load_tickets_def all_tickets_of_def)








text \<open>
  C7. The two tickets of cauldron c1 on 2025-11-01, amounts 60 and 42, against a drain
  volume of 100 with tolerance 0.05 and threshold 5.0: the total is 102, the difference
  2, the relative difference 0.02, the status OK and the number of tickets 2.
\<close>

theorem C7_example:
  "check_discrepancy pandas_ref
     (Inr (JList [JObj [(''cauldron_id'', JStr ''c1''), (''date'', JStr ''2025-11-01''),
                        (''amount_collected'', JNum 60)],
                  JObj [(''cauldron_id'', JStr ''c1''), (''date'', JStr ''2025-11-01''),
                        (''amount_collected'', JNum 42)]]))
     (JStr ''c1'') (JStr ''2025-11-01'') 100 (5 / 100) 5 =
   Inr (Result \<lparr>cauldron_id = JStr ''c1'',
          date = Some \<lparr>year = 2025, month = 11, day = 1\<rparr>,
          drain_volume = 100, total_ticket_volume = 102, status = OK,
          difference = 2, relative_diff = 2 / 100, num_tickets = Some 2\<rparr>)"
  by code_simp



section \<open>Properties of the HTTP entry point\<close>

text \<open>
  C9. The claim is that every error of a request is recovered and reported as a JSON
  error payload. The handler does not do so for a request whose \<open>tolerance\<close>,
  \<open>threshold\<close> or \<open>drain_volume\<close> is present and not numeric: the conversion by
  \<^verbatim>\<open>float\<close> raises, and the exception leaves the view function uncaught. Evaluated here
  for a list-valued \<open>tolerance\<close>, a null \<open>threshold\<close> and a list-valued \<open>drain_volume\<close>.
\<close>

theorem C9_unhandled_exception:
  "detect_daily_discrepancy lib upstream (Some (example_request [(''tolerance'', JList [])]))
     = Inl TypeError
   \<and> detect_daily_discrepancy lib upstream (Some (example_request [(''threshold'', JNull)]))
     = Inl TypeError
   \<and> detect_daily_discrepancy lib upstream
       (Some (JObj [(''cauldron_data'',
          JObj [(''cauldron_id'', JStr ''c1''), (''date_time'', JStr ''2025-11-01''),
                (''drain_volume'', JList [JNum 100])])]))
     = Inl TypeError"
  by (simp add: detect_daily_discrepancy_def validate_request_def example_request_def
        dict_get_def truthy_def py_float_def Let_def)




end
